theory Spec2Isabelle
  imports Main
begin

section \<open>The OAuth2 authentication provider (providers/oauth2/provider.ts)\<close>

text \<open>
  A shallow embedding of \<^verbatim>\<open>plugins/auth-backend/src/providers/oauth2/provider.ts\<close>.
  An \<^verbatim>\<open>async\<close> function is a function into \<open>error + 'a\<close>: \<open>Inl\<close> is the rejected
  promise (a thrown error), \<open>Inr\<close> the resolved one; a constructor or function that may
  throw is one too. A value that may be \<^verbatim>\<open>undefined\<close> is an \<open>option\<close>, \<open>None\<close> being
  \<^verbatim>\<open>undefined\<close>.
\<close>

subsection \<open>Data\<close>

text \<open>\<^verbatim>\<open>new Error(message)\<close> and \<^verbatim>\<open>new TypeError(message)\<close>.\<close>

datatype error = Error (message: string) | TypeError (message: string)

text \<open>
  The \<^verbatim>\<open>params\<close> of the token endpoint's answer (typed \<^verbatim>\<open>any\<close> in the source): the
  three members the provider reads.
\<close>

record params =
  id_token :: "string option"
  scope :: "string option"
  expires_in :: "int option"

record ProviderInfo =
  idToken :: "string option"
  accessToken :: string
  scope :: "string option"
  expiresInSeconds :: "int option"

record ProfileInfo =
  email :: "string option"
  displayName :: "string option"
  picture :: "string option"

text \<open>
  \<^verbatim>\<open>backstageIdentity: { id }\<close>. The member is read from an array by index, which in
  JavaScript is \<^verbatim>\<open>undefined\<close> beyond the end, hence the \<open>option\<close>.
\<close>

record BackstageIdentity =
  id' :: "string option"

record OAuthResponse =
  providerInfo :: ProviderInfo
  profile :: ProfileInfo
  backstageIdentity :: "BackstageIdentity option"

text \<open>\<^verbatim>\<open>type PrivateInfo = { refreshToken: string }\<close>; the verify callback stores there
  whatever the token exchange delivered.\<close>

record PrivateInfo =
  refreshToken :: "string option"

text \<open>The value \<^verbatim>\<open>handler\<close> resolves to:
  \<^verbatim>\<open>{ response: OAuthResponse; refreshToken: string }\<close>.\<close>

record HandlerResult =
  response :: OAuthResponse
  refreshToken :: "string option"


text \<open>\<^verbatim>\<open>OAuth2AuthProviderOptions\<close>: the options of the provider's constructor.\<close>

record OAuth2AuthProviderOptions =
  clientId :: string
  clientSecret :: string
  callbackUrl :: string
  authorizationUrl :: string
  tokenUrl :: string

text \<open>The first argument of \<^verbatim>\<open>new OAuth2Strategy(...)\<close>.\<close>

record StrategyOptions =
  clientID :: string
  clientSecret :: string
  callbackURL :: string
  authorizationURL :: string
  tokenURL :: string
  passReqToCallback :: bool

text \<open>
  The strategy object: its options and its verify callback. The callback receives
  \<^verbatim>\<open>accessToken, refreshToken, params, rawProfile\<close> and hands a result and a private
  info to \<^verbatim>\<open>done\<close>; the pair returned here is what it passes to \<^verbatim>\<open>done\<close> (its error
  argument is always \<^verbatim>\<open>undefined\<close>).
\<close>

record 'raw OAuth2Strategy =
  options :: StrategyOptions
  verify :: "string \<Rightarrow> string option \<Rightarrow> params \<Rightarrow> 'raw \<Rightarrow> OAuthResponse \<times> PrivateInfo"

text \<open>\<^verbatim>\<open>class OAuth2AuthProvider { private readonly _strategy }\<close>.\<close>

record 'raw OAuth2AuthProvider =
  strategy :: "'raw OAuth2Strategy"

text \<open>
  What the provider calls and this file of the repository does not hold: the helpers of
  \<^verbatim>\<open>lib/PassportStrategyHelper\<close> and the passport library. They are parameters of the
  model. \<open>'req\<close> is the \<^verbatim>\<open>express.Request\<close>, \<open>'raw\<close> the \<^verbatim>\<open>passport.Profile\<close> of the
  provider.
  \<^item> \<open>constructorError\<close>: the error that \<^verbatim>\<open>new OAuth2Strategy(options, verify)\<close> throws
    for these options (the library refuses some, such as an empty client id), \<open>None\<close>
    when it constructs the strategy.
  \<^item> \<open>exchangeCodeForToken\<close>: the authorization-code exchange the strategy performs for
    a request; it fails or delivers the four arguments of the verify callback.
  \<^item> \<open>fetchProfile\<close>: the call of the provider's profile endpoint with an access token
    (and the id token, which the helper is given too); it fails or delivers the raw
    profile.
\<close>

record ('req, 'raw) helpers =
  makeProfileInfo :: "'raw \<Rightarrow> string option \<Rightarrow> ProfileInfo"
  constructorError :: "StrategyOptions \<Rightarrow> error option"
  exchangeCodeForToken ::
    "'req \<Rightarrow> StrategyOptions \<Rightarrow> error + (string \<times> string option \<times> params \<times> 'raw)"
  executeRefreshTokenStrategy ::
    "'raw OAuth2Strategy \<Rightarrow> string \<Rightarrow> string \<Rightarrow> error + (string \<times> params)"
  fetchProfile ::
    "'raw OAuth2Strategy \<Rightarrow> string \<Rightarrow> string option \<Rightarrow> error + 'raw"

subsection \<open>JavaScript strings and arrays\<close>

text \<open>
  \<^verbatim>\<open>s.split(sep)\<close> for a separator of one character: the pieces of \<open>s\<close> between the
  occurrences of \<open>sep\<close>; the empty string gives one empty piece.
\<close>

fun split :: "char \<Rightarrow> string \<Rightarrow> string list" where
  "split sep [] = [[]]"
| "split sep (c # cs) =
     (if c = sep then [] # split sep cs
      else (case split sep cs of
              [] \<Rightarrow> [[c]]
            | w # ws \<Rightarrow> (c # w) # ws))"

text \<open>\<^verbatim>\<open>xs[i]\<close>: \<^verbatim>\<open>undefined\<close> beyond the end of the array.\<close>

fun index :: "'a list \<Rightarrow> nat \<Rightarrow> 'a option" where
  "index [] i = None"
| "index (x # xs) 0 = Some x"
| "index (x # xs) (Suc i) = index xs i"

text \<open>\<^verbatim>\<open>!s\<close> for a string that may be \<^verbatim>\<open>undefined\<close>: true when it is absent or empty.\<close>

fun falsy :: "string option \<Rightarrow> bool" where
  "falsy None = True"
| "falsy (Some s) = (s = [])"

subsection \<open>The provider\<close>

text \<open>The verify callback given to \<^verbatim>\<open>new OAuth2Strategy\<close> in the constructor.\<close>

definition verify_callback ::
  "('req, 'raw) helpers \<Rightarrow> string \<Rightarrow> string option \<Rightarrow> params \<Rightarrow> 'raw
     \<Rightarrow> OAuthResponse \<times> PrivateInfo" where
  "verify_callback H token rtoken ps rawProfile =
     (let prof = makeProfileInfo H rawProfile (id_token ps) in
      (\<lparr>providerInfo =
          \<lparr>idToken = id_token ps,
           accessToken = token,
           scope = params.scope ps,
           expiresInSeconds = expires_in ps\<rparr>,
        profile = prof,
        backstageIdentity = None\<rparr>,
       \<lparr>PrivateInfo.refreshToken = rtoken\<rparr>))"

text \<open>
  \<^verbatim>\<open>new OAuth2Strategy(options, verify)\<close>: the library's constructor throws for options it
  refuses, and otherwise the strategy holds the options and the verify callback.
\<close>

definition new_OAuth2Strategy ::
  "('req, 'raw) helpers \<Rightarrow> StrategyOptions
     \<Rightarrow> (string \<Rightarrow> string option \<Rightarrow> params \<Rightarrow> 'raw \<Rightarrow> OAuthResponse \<times> PrivateInfo)
     \<Rightarrow> error + 'raw OAuth2Strategy" where
  "new_OAuth2Strategy H sopts v =
     (case constructorError H sopts of
        Some e \<Rightarrow> Inl e
      | None \<Rightarrow> Inr \<lparr>options = sopts, verify = v\<rparr>)"

text \<open>The constructor of the provider; it throws what \<^verbatim>\<open>new OAuth2Strategy\<close> throws.\<close>

definition new_OAuth2AuthProvider ::
  "('req, 'raw) helpers \<Rightarrow> OAuth2AuthProviderOptions \<Rightarrow> error + 'raw OAuth2AuthProvider" where
  "new_OAuth2AuthProvider H opts =
     (case new_OAuth2Strategy H
             \<lparr>clientID = clientId opts,
              clientSecret = OAuth2AuthProviderOptions.clientSecret opts,
              callbackURL = callbackUrl opts,
              authorizationURL = authorizationUrl opts,
              tokenURL = tokenUrl opts,
              passReqToCallback = False\<rparr>
             (verify_callback H) of
        Inl e \<Rightarrow> Inl e
      | Inr s \<Rightarrow> Inr \<lparr>strategy = s\<rparr>)"

text \<open>
  \<^verbatim>\<open>populateIdentity\<close>. Past the check \<^verbatim>\<open>!profile.email\<close> the email is a non-empty
  string, so \<open>the\<close> is only ever applied to a \<open>Some\<close>. The spread
  \<^verbatim>\<open>{ ...response, backstageIdentity: { id } }\<close> is a record update.
\<close>

definition populateIdentity :: "OAuthResponse \<Rightarrow> error + OAuthResponse" where
  "populateIdentity resp =
     (let prof = profile resp in
      if falsy (email prof) then Inl (Error ''Profile does not contain a profile'')
      else
        (let ident = index (split CHR ''@'' (the (email prof))) 0 in
         Inr (resp\<lparr>backstageIdentity := Some \<lparr>id' = ident\<rparr>\<rparr>)))"







text \<open>
  Modelled from the spec: \<^verbatim>\<open>executeFrameHandlerStrategy\<close> of
  \<^verbatim>\<open>lib/PassportStrategyHelper\<close> is not among the source files. After the spec's
  \<^verbatim>\<open>exchangeCodeForToken(code) -> {accessToken, refreshToken, params, rawProfile}\<close>
  and its \<^verbatim>\<open>handler\<close>: the code exchange of the request fails, or its four results go
  to the strategy's verify callback, and what the callback hands to \<^verbatim>\<open>done\<close> is the
  helper's result.
\<close>

definition executeFrameHandlerStrategy ::
  "('req, 'raw) helpers \<Rightarrow> 'req \<Rightarrow> 'raw OAuth2Strategy
     \<Rightarrow> error + (OAuthResponse \<times> PrivateInfo)" where
  "executeFrameHandlerStrategy H req s =
     (case exchangeCodeForToken H req (options s) of
        Inl e \<Rightarrow> Inl e
      | Inr (token, rtoken, ps, rawProfile) \<Rightarrow> Inr (verify s token rtoken ps rawProfile))"

text \<open>\<^verbatim>\<open>handler\<close>.\<close>

definition handler ::
  "('req, 'raw) helpers \<Rightarrow> 'raw OAuth2AuthProvider \<Rightarrow> 'req \<Rightarrow> error + HandlerResult" where
  "handler H this req =
     (case executeFrameHandlerStrategy H req (strategy this) of
        Inl e \<Rightarrow> Inl e
      | Inr (resp, privateInfo) \<Rightarrow>
          (case populateIdentity resp of
             Inl e \<Rightarrow> Inl e
           | Inr resp' \<Rightarrow>
               Inr \<lparr>response = resp',
                    refreshToken = PrivateInfo.refreshToken privateInfo\<rparr>))"

text \<open>
  Modelled from the spec: \<^verbatim>\<open>executeFetchUserProfileStrategy\<close> of
  \<^verbatim>\<open>lib/PassportStrategyHelper\<close> is not among the source files. After the spec's
  \<^verbatim>\<open>fetchProfile(accessToken, idToken) -> rawProfile\<close>, which "calls the provider's profile
  endpoint with a bearer token", and its
  \<^verbatim>\<open>makeProfileInfo(rawProfile, idToken) -> ProfileInfo\<close>: the profile fetch fails, or the profile info is made of the raw profile it
  delivers and of the id token that the helper is given.
\<close>

definition executeFetchUserProfileStrategy ::
  "('req, 'raw) helpers \<Rightarrow> 'raw OAuth2Strategy \<Rightarrow> string \<Rightarrow> string option
     \<Rightarrow> error + ProfileInfo" where
  "executeFetchUserProfileStrategy H s token idt =
     (case fetchProfile H s token idt of
        Inl e \<Rightarrow> Inl e
      | Inr rawProfile \<Rightarrow> Inr (makeProfileInfo H rawProfile idt))"

text \<open>\<^verbatim>\<open>refresh\<close>.\<close>

definition refresh ::
  "('req, 'raw) helpers \<Rightarrow> 'raw OAuth2AuthProvider \<Rightarrow> string \<Rightarrow> string
     \<Rightarrow> error + OAuthResponse" where
  "refresh H this rtoken sc =
     (case executeRefreshTokenStrategy H (strategy this) rtoken sc of
        Inl e \<Rightarrow> Inl e
      | Inr (token, ps) \<Rightarrow>
          (case executeFetchUserProfileStrategy H (strategy this) token (id_token ps) of
             Inl e \<Rightarrow> Inl e
           | Inr prof \<Rightarrow>
               populateIdentity
                 \<lparr>providerInfo =
                    \<lparr>idToken = id_token ps,
                     accessToken = token,
                     scope = params.scope ps,
                     expiresInSeconds = expires_in ps\<rparr>,
                  profile = prof,
                  backstageIdentity = None\<rparr>))"

subsection \<open>The factory\<close>

text \<open>\<^verbatim>\<open>AuthProviderConfig\<close>: the member the factory reads.\<close>

record AuthProviderConfig =
  baseUrl :: string

text \<open>
  \<^verbatim>\<open>Config\<close> of \<^verbatim>\<open>@backstage/config\<close>, an object with the method \<^verbatim>\<open>getString\<close>, which
  returns the string stored under a key or throws.
\<close>

record Config =
  getString :: "string \<Rightarrow> error + string"

text \<open>The third argument of \<^verbatim>\<open>OAuthProvider.fromConfig\<close>.\<close>

record 'ti OAuthProviderFromConfigOptions =
  disableRefresh :: bool
  providerId :: string
  tokenIssuer :: 'ti

text \<open>
  \<^verbatim>\<open>createOAuth2Provider\<close>. \<^verbatim>\<open>OAuthProvider.fromConfig\<close> is not among the source files
  and is the parameter \<open>fromConfig\<close>; \<open>env\<close> is the second argument, which the source
  names \<^verbatim>\<open>_\<close> and never reads, as it never reads \<^verbatim>\<open>_logger\<close>. The statements run in
  the order of the source: the first that throws ends the factory.
\<close>

definition createOAuth2Provider ::
  "('req, 'raw) helpers
     \<Rightarrow> (AuthProviderConfig \<Rightarrow> 'raw OAuth2AuthProvider \<Rightarrow> 'ti OAuthProviderFromConfigOptions \<Rightarrow> 'h)
     \<Rightarrow> AuthProviderConfig \<Rightarrow> string \<Rightarrow> Config \<Rightarrow> 'lg \<Rightarrow> 'ti \<Rightarrow> error + 'h" where
  "createOAuth2Provider H fromConfig config env envConfig logger issuer =
     (let pid = ''oauth2'' in
      case getString envConfig ''clientId'' of
        Inl e \<Rightarrow> Inl e
      | Inr cid \<Rightarrow>
     (case getString envConfig ''clientSecret'' of
        Inl e \<Rightarrow> Inl e
      | Inr secret \<Rightarrow>
     (let cb = baseUrl config @ ''/'' @ pid @ ''/handler/frame'' in
      case getString envConfig ''authorizationUrl'' of
        Inl e \<Rightarrow> Inl e
      | Inr aurl \<Rightarrow>
     (case getString envConfig ''tokenUrl'' of
        Inl e \<Rightarrow> Inl e
      | Inr turl \<Rightarrow>
     (case new_OAuth2AuthProvider H
             \<lparr>clientId = cid,
              clientSecret = secret,
              callbackUrl = cb,
              authorizationUrl = aurl,
              tokenUrl = turl\<rparr> of
        Inl e \<Rightarrow> Inl e
      | Inr provider \<Rightarrow>
          Inr (fromConfig config provider
                 \<lparr>disableRefresh = False, providerId = pid, tokenIssuer = issuer\<rparr>))))))"

subsection \<open>Instances of the helpers, for the scenarios\<close>

text \<open>
  A stand-in for the helpers, to run the provider on concrete inputs. The request is the
  authorization code, the raw profile the members of the profile endpoint's JSON object.
  The constructor of the strategy refuses an empty authorization URL, token URL or client
  id with a \<^verbatim>\<open>TypeError\<close>. The code exchange accepts the code \<^verbatim>\<open>abc123\<close> and answers
  \<^verbatim>\<open>{access_token: "T", id_token: "I", expires_in: 3600}\<close>, with the refresh token \<open>rt\<close>
  and the raw profile \<open>raw\<close>; the refresh exchange accepts \<open>rt\<close> only; the profile endpoint
  answers \<open>raw\<close>; the profile is made of the members \<^verbatim>\<open>email\<close>, \<^verbatim>\<open>displayName\<close> and
  \<^verbatim>\<open>picture\<close> of the raw profile.
\<close>

definition example_makeProfileInfo :: "(string \<times> string) list \<Rightarrow> string option \<Rightarrow> ProfileInfo" where
  "example_makeProfileInfo raw idt =
     \<lparr>email = map_of raw ''email'',
      displayName = map_of raw ''displayName'',
      picture = map_of raw ''picture''\<rparr>"

definition example_constructorError :: "StrategyOptions \<Rightarrow> error option" where
  "example_constructorError sopts =
     (if authorizationURL sopts = []
      then Some (TypeError ''OAuth2Strategy requires a authorizationURL option'')
      else if tokenURL sopts = []
      then Some (TypeError ''OAuth2Strategy requires a tokenURL option'')
      else if clientID sopts = []
      then Some (TypeError ''OAuth2Strategy requires a clientID option'')
      else None)"

definition example_helpers ::
  "(string \<times> string) list \<Rightarrow> string option \<Rightarrow> (string, (string \<times> string) list) helpers" where
  "example_helpers raw rt =
     \<lparr>makeProfileInfo = example_makeProfileInfo,
      constructorError = example_constructorError,
      exchangeCodeForToken =
        (\<lambda>req so.
           if req = ''abc123''
           then Inr (''T'', rt,
                  \<lparr>id_token = Some ''I'', params.scope = None, expires_in = Some 3600\<rparr>, raw)
           else Inl (Error ''invalid code'')),
      executeRefreshTokenStrategy =
        (\<lambda>s r sc.
           if Some r = rt
           then Inr (''T2'',
                  \<lparr>id_token = Some ''I2'', params.scope = Some sc, expires_in = Some 3600\<rparr>)
           else Inl (Error ''invalid refresh token'')),
      fetchProfile = (\<lambda>s token idt. Inr raw)\<rparr>"

definition example_options :: OAuth2AuthProviderOptions where
  "example_options =
     \<lparr>clientId = ''c1'',
      clientSecret = ''s1'',
      callbackUrl = ''https://backstage/oauth2/handler/frame'',
      authorizationUrl = ''https://idp/auth'',
      tokenUrl = ''https://idp/token''\<rparr>"

text \<open>The provider that the constructor makes of \<open>example_options\<close>.\<close>

definition example_provider ::
  "(string \<times> string) list \<Rightarrow> string option \<Rightarrow> (string \<times> string) list OAuth2AuthProvider" where
  "example_provider raw rt =
     \<lparr>strategy =
        \<lparr>options =
           \<lparr>clientID = ''c1'',
            clientSecret = ''s1'',
            callbackURL = ''https://backstage/oauth2/handler/frame'',
            authorizationURL = ''https://idp/auth'',
            tokenURL = ''https://idp/token'',
            passReqToCallback = False\<rparr>,
         verify = verify_callback (example_helpers raw rt)\<rparr>\<rparr>"

definition example_response :: "string option \<Rightarrow> OAuthResponse" where
  "example_response em =
     \<lparr>providerInfo =
        \<lparr>idToken = Some ''I'', accessToken = ''T'', scope = None,
         expiresInSeconds = Some 3600\<rparr>,
      profile = \<lparr>email = em, displayName = None, picture = None\<rparr>,
      backstageIdentity = None\<rparr>"

definition example_envConfig :: Config where
  "example_envConfig =
     \<lparr>getString =
        (\<lambda>key. case map_of
               [(''clientId'', ''c1''), (''clientSecret'', ''s1''),
                (''authorizationUrl'', ''https://idp/auth''),
                (''tokenUrl'', ''https://idp/token'')] key of
             None \<Rightarrow> Inl (Error ''missing configuration value'')
           | Some v \<Rightarrow> Inr v)\<rparr>"

text \<open>
  A second stand-in, in which the email is a claim of the id token: the profile
  endpoint's object has no member \<^verbatim>\<open>email\<close>, and the profile info takes the email of the
  raw profile or else of the id token, \<^verbatim>\<open>alice@example.com\<close> for the id token \<^verbatim>\<open>I\<close>. The
  code exchange is that of \<open>example_helpers\<close> with the refresh token \<^verbatim>\<open>R\<close> and an empty
  raw profile; the refresh exchange delivers the id token \<open>idt\<close>; the profile endpoint
  answers the same empty raw profile.
\<close>

definition idtoken_makeProfileInfo :: "(string \<times> string) list \<Rightarrow> string option \<Rightarrow> ProfileInfo" where
  "idtoken_makeProfileInfo raw idt =
     \<lparr>email =
        (case map_of raw ''email'' of
           Some e \<Rightarrow> Some e
         | None \<Rightarrow> (if idt = Some ''I'' then Some ''alice@example.com'' else None)),
      displayName = map_of raw ''displayName'',
      picture = map_of raw ''picture''\<rparr>"

definition idtoken_helpers ::
  "string option \<Rightarrow> (string, (string \<times> string) list) helpers" where
  "idtoken_helpers idt =
     (example_helpers [] (Some ''R''))
       \<lparr>makeProfileInfo := idtoken_makeProfileInfo,
        executeRefreshTokenStrategy :=
          (\<lambda>s r sc.
             if r = ''R''
             then Inr (''T2'',
                    \<lparr>id_token = idt, params.scope = Some sc, expires_in = Some 3600\<rparr>)
             else Inl (Error ''invalid refresh token''))\<rparr>"

definition idtoken_provider ::
  "string option \<Rightarrow> (string \<times> string) list OAuth2AuthProvider" where
  "idtoken_provider idt =
     \<lparr>strategy =
        \<lparr>options =
           \<lparr>clientID = ''c1'',
            clientSecret = ''s1'',
            callbackURL = ''https://backstage/oauth2/handler/frame'',
            authorizationURL = ''https://idp/auth'',
            tokenURL = ''https://idp/token'',
            passReqToCallback = False\<rparr>,
         verify = verify_callback (idtoken_helpers idt)\<rparr>\<rparr>"

section \<open>Properties\<close>

subsection \<open>Auxiliary facts\<close>

lemma index_split_0: "index (split sep s) 0 = Some (takeWhile (\<lambda>c. c \<noteq> sep) s)"
  by (induction s) (auto split: list.splits)

lemma takeWhile_then_sep:
  "\<exists>rest. s = takeWhile (\<lambda>c. c \<noteq> sep) s @ rest \<and> (rest = [] \<or> hd rest = sep)"
proof (intro exI conjI)
  show "s = takeWhile (\<lambda>c. c \<noteq> sep) s @ dropWhile (\<lambda>c. c \<noteq> sep) s" by simp
  show "dropWhile (\<lambda>c. c \<noteq> sep) s = [] \<or> hd (dropWhile (\<lambda>c. c \<noteq> sep) s) = sep"
    using hd_dropWhile [of "\<lambda>c. c \<noteq> sep" s] by blast
qed

lemma not_falsy_iff: "\<not> falsy x \<longleftrightarrow> (\<exists>e. x = Some e \<and> e \<noteq> [])"
  by (cases x) auto

lemma populateIdentity_resolved:
  assumes "email (profile r) = Some e" and "e \<noteq> []"
  shows "populateIdentity r =
    Inr (r\<lparr>backstageIdentity := Some \<lparr>id' = Some (takeWhile (\<lambda>c. c \<noteq> CHR ''@'') e)\<rparr>\<rparr>)"
  using assms by (simp add: populateIdentity_def index_split_0)

lemma populateIdentity_falsy:
  assumes "falsy (email (profile r))"
  shows "populateIdentity r = Inl (Error ''Profile does not contain a profile'')"
  using assms by (simp add: populateIdentity_def)

lemma provider_constructed:
  assumes "new_OAuth2AuthProvider H opts = Inr this"
  shows "verify (strategy this) = verify_callback H"
    and "options (strategy this) =
      \<lparr>clientID = clientId opts,
       clientSecret = OAuth2AuthProviderOptions.clientSecret opts,
       callbackURL = callbackUrl opts,
       authorizationURL = authorizationUrl opts,
       tokenURL = tokenUrl opts,
       passReqToCallback = False\<rparr>"
  using assms
  by (auto simp: new_OAuth2AuthProvider_def new_OAuth2Strategy_def
      split: option.splits sum.splits)

lemma frame_handler_verify:
  assumes prov: "new_OAuth2AuthProvider H opts = Inr this"
    and ex: "exchangeCodeForToken H req (options (strategy this)) = Inr (token, rt, ps, raw)"
  shows "executeFrameHandlerStrategy H req (strategy this) =
    Inr (verify_callback H token rt ps raw)"
  using ex by (simp add: executeFrameHandlerStrategy_def provider_constructed(1) [OF prov])

lemma handler_resolved:
  assumes prov: "new_OAuth2AuthProvider H opts = Inr this"
    and ex: "exchangeCodeForToken H req (options (strategy this)) = Inr (token, rt, ps, raw)"
    and em: "email (makeProfileInfo H raw (id_token ps)) = Some e" and ne: "e \<noteq> []"
  shows "handler H this req =
    Inr \<lparr>response =
           \<lparr>providerInfo =
              \<lparr>idToken = id_token ps, accessToken = token,
               scope = params.scope ps, expiresInSeconds = expires_in ps\<rparr>,
            profile = makeProfileInfo H raw (id_token ps),
            backstageIdentity = Some \<lparr>id' = Some (takeWhile (\<lambda>c. c \<noteq> CHR ''@'') e)\<rparr>\<rparr>,
         refreshToken = rt\<rparr>"
  using frame_handler_verify [OF prov ex] em ne
  by (simp add: handler_def verify_callback_def populateIdentity_resolved)

lemma handler_unresolved:
  assumes prov: "new_OAuth2AuthProvider H opts = Inr this"
    and ex: "exchangeCodeForToken H req (options (strategy this)) = Inr (token, rt, ps, raw)"
    and em: "falsy (email (makeProfileInfo H raw (id_token ps)))"
  shows "handler H this req = Inl (Error ''Profile does not contain a profile'')"
  using frame_handler_verify [OF prov ex] em
  by (simp add: handler_def verify_callback_def populateIdentity_falsy)

lemma handler_exchange_failed:
  assumes "exchangeCodeForToken H req (options (strategy this)) = Inl err"
  shows "handler H this req = Inl err"
  using assms by (simp add: handler_def executeFrameHandlerStrategy_def)

lemma refresh_resolved:
  assumes ex: "executeRefreshTokenStrategy H (strategy this) rtoken sc = Inr (token, ps)"
    and fp: "executeFetchUserProfileStrategy H (strategy this) token (id_token ps) = Inr prof"
    and em: "email prof = Some e" and ne: "e \<noteq> []"
  shows "refresh H this rtoken sc =
    Inr \<lparr>providerInfo =
           \<lparr>idToken = id_token ps, accessToken = token,
            scope = params.scope ps, expiresInSeconds = expires_in ps\<rparr>,
         profile = prof,
         backstageIdentity = Some \<lparr>id' = Some (takeWhile (\<lambda>c. c \<noteq> CHR ''@'') e)\<rparr>\<rparr>"
  using assms by (simp add: refresh_def populateIdentity_resolved)

lemma refresh_unresolved:
  assumes ex: "executeRefreshTokenStrategy H (strategy this) rtoken sc = Inr (token, ps)"
    and fp: "executeFetchUserProfileStrategy H (strategy this) token (id_token ps) = Inr prof"
    and em: "falsy (email prof)"
  shows "refresh H this rtoken sc = Inl (Error ''Profile does not contain a profile'')"
  using assms by (simp add: refresh_def populateIdentity_falsy)

lemma populateIdentity_Inr_cases:
  assumes "populateIdentity r = Inr r'"
  shows "\<exists>e. email (profile r) = Some e \<and> e \<noteq> [] \<and>
    r' = r\<lparr>backstageIdentity := Some \<lparr>id' = Some (takeWhile (\<lambda>c. c \<noteq> CHR ''@'') e)\<rparr>\<rparr>"
proof (cases "falsy (email (profile r))")
  case True
  with assms show ?thesis by (simp add: populateIdentity_falsy)
next
  case False
  then obtain e where e: "email (profile r) = Some e" "e \<noteq> []"
    using not_falsy_iff by blast
  with assms populateIdentity_resolved [OF e] show ?thesis by simp
qed

lemma handler_Inr_cases:
  assumes prov: "new_OAuth2AuthProvider H opts = Inr this"
    and h: "handler H this req = Inr h"
  shows "\<exists>token rt ps raw e.
    exchangeCodeForToken H req (options (strategy this)) = Inr (token, rt, ps, raw) \<and>
    email (makeProfileInfo H raw (id_token ps)) = Some e \<and> e \<noteq> [] \<and>
    h = \<lparr>response =
           \<lparr>providerInfo =
              \<lparr>idToken = id_token ps, accessToken = token,
               scope = params.scope ps, expiresInSeconds = expires_in ps\<rparr>,
            profile = makeProfileInfo H raw (id_token ps),
            backstageIdentity = Some \<lparr>id' = Some (takeWhile (\<lambda>c. c \<noteq> CHR ''@'') e)\<rparr>\<rparr>,
          refreshToken = rt\<rparr>"
proof (cases "exchangeCodeForToken H req (options (strategy this))")
  case (Inl err)
  with h show ?thesis by (simp add: handler_exchange_failed)
next
  case (Inr res)
  then obtain token rt ps raw where
    ex: "exchangeCodeForToken H req (options (strategy this)) = Inr (token, rt, ps, raw)"
    by (cases res) auto
  show ?thesis
  proof (cases "falsy (email (makeProfileInfo H raw (id_token ps)))")
    case True
    with h handler_unresolved [OF prov ex] show ?thesis by simp
  next
    case False
    then obtain e where e: "email (makeProfileInfo H raw (id_token ps)) = Some e" "e \<noteq> []"
      using not_falsy_iff by blast
    with h handler_resolved [OF prov ex e] ex show ?thesis by auto
  qed
qed

lemma refresh_Inr_cases:
  assumes r: "refresh H this rtoken sc = Inr r"
  shows "\<exists>token ps prof e.
    executeRefreshTokenStrategy H (strategy this) rtoken sc = Inr (token, ps) \<and>
    executeFetchUserProfileStrategy H (strategy this) token (id_token ps) = Inr prof \<and>
    email prof = Some e \<and> e \<noteq> [] \<and>
    r = \<lparr>providerInfo =
           \<lparr>idToken = id_token ps, accessToken = token,
            scope = params.scope ps, expiresInSeconds = expires_in ps\<rparr>,
         profile = prof,
         backstageIdentity = Some \<lparr>id' = Some (takeWhile (\<lambda>c. c \<noteq> CHR ''@'') e)\<rparr>\<rparr>"
proof (cases "executeRefreshTokenStrategy H (strategy this) rtoken sc")
  case (Inl err)
  with r show ?thesis by (simp add: refresh_def)
next
  case (Inr res)
  then obtain token ps where
    ex: "executeRefreshTokenStrategy H (strategy this) rtoken sc = Inr (token, ps)"
    by (cases res) auto
  show ?thesis
  proof (cases "executeFetchUserProfileStrategy H (strategy this) token (id_token ps)")
    case (Inl err)
    with r ex show ?thesis by (simp add: refresh_def)
  next
    case (Inr prof)
    show ?thesis
    proof (cases "falsy (email prof)")
      case True
      with r refresh_unresolved [OF ex Inr] show ?thesis by simp
    next
      case False
      then obtain e where e: "email prof = Some e" "e \<noteq> []"
        using not_falsy_iff by blast
      with r refresh_resolved [OF ex Inr e] ex Inr show ?thesis by auto
    qed
  qed
qed

subsection \<open>Identity resolution\<close>

text \<open>
  C1. For a profile with a non-empty email, \<^verbatim>\<open>populateIdentity\<close> succeeds and the id it
  adds is a function of the email alone: the part of the email before the first \<open>@\<close>.
  That part is a prefix of the email without any \<open>@\<close>, and what follows it in the email
  is nothing or starts with \<open>@\<close>.
\<close>

theorem populateIdentity_local_part:
  assumes "email (profile r) = Some e" and "e \<noteq> []"
  shows "\<exists>ident rest.
    populateIdentity r = Inr (r\<lparr>backstageIdentity := Some \<lparr>id' = Some ident\<rparr>\<rparr>) \<and>
    ident = takeWhile (\<lambda>c. c \<noteq> CHR ''@'') e \<and>
    e = ident @ rest \<and> CHR ''@'' \<notin> set ident \<and> (rest = [] \<or> hd rest = CHR ''@'')"
proof -
  let ?ident = "takeWhile (\<lambda>c. c \<noteq> CHR ''@'') e"
  obtain rest where rest: "e = ?ident @ rest" "rest = [] \<or> hd rest = CHR ''@''"
    using takeWhile_then_sep [of e "CHR ''@''"] by blast
  have "CHR ''@'' \<notin> set ?ident"
    using set_takeWhileD [of "CHR ''@''" "\<lambda>c. c \<noteq> CHR ''@''" e] by blast
  with rest populateIdentity_resolved [OF assms] show ?thesis by blast
qed

theorem populateIdentity_local_part_witness:
  "email (profile (example_response (Some ''bob.b@example.com@x''))) = Some ''bob.b@example.com@x'' \<and>
   ''bob.b@example.com@x'' \<noteq> [] \<and>
   populateIdentity (example_response (Some ''bob.b@example.com@x'')) =
     Inr ((example_response (Some ''bob.b@example.com@x''))
            \<lparr>backstageIdentity := Some \<lparr>id' = Some ''bob.b''\<rparr>\<rparr>)"
  using populateIdentity_local_part
    [of "example_response (Some ''bob.b@example.com@x'')" "''bob.b@example.com@x''"]
  by (simp add: example_response_def)

text \<open>
  C10. For a profile whose email is non-empty and has no \<open>@\<close>, \<^verbatim>\<open>populateIdentity\<close>
  succeeds and the id is the whole email.
\<close>

theorem populateIdentity_no_at:
  assumes "email (profile r) = Some e" and "e \<noteq> []" and "CHR ''@'' \<notin> set e"
  shows "populateIdentity r = Inr (r\<lparr>backstageIdentity := Some \<lparr>id' = Some e\<rparr>\<rparr>)"
proof -
  have "takeWhile (\<lambda>c. c \<noteq> CHR ''@'') e = e"
    using assms(3) by auto
  with populateIdentity_resolved [OF assms(1,2)] show ?thesis by simp
qed

theorem populateIdentity_no_at_witness:
  "email (profile (example_response (Some ''alice''))) = Some ''alice'' \<and>
   ''alice'' \<noteq> [] \<and> CHR ''@'' \<notin> set ''alice'' \<and>
   populateIdentity (example_response (Some ''alice'')) =
     Inr ((example_response (Some ''alice''))\<lparr>backstageIdentity := Some \<lparr>id' = Some ''alice''\<rparr>\<rparr>)"
  using populateIdentity_no_at [of "example_response (Some ''alice'')" "''alice''"]
  by (simp add: example_response_def)

lemma example_provider_constructed:
  "new_OAuth2AuthProvider (example_helpers raw rt) example_options = Inr (example_provider raw rt)"
  by (simp add: new_OAuth2AuthProvider_def new_OAuth2Strategy_def example_helpers_def
      example_constructorError_def example_options_def example_provider_def)

lemma idtoken_provider_constructed:
  "new_OAuth2AuthProvider (idtoken_helpers idt) example_options = Inr (idtoken_provider idt)"
  by (simp add: new_OAuth2AuthProvider_def new_OAuth2Strategy_def idtoken_helpers_def
      example_helpers_def example_constructorError_def example_options_def
      idtoken_provider_def)

lemmas example_defs = example_helpers_def example_makeProfileInfo_def example_options_def
  example_provider_def example_constructorError_def
  new_OAuth2AuthProvider_def new_OAuth2Strategy_def

lemmas provider_defs = handler_def refresh_def executeFrameHandlerStrategy_def
  executeFetchUserProfileStrategy_def verify_callback_def populateIdentity_def

lemmas idtoken_defs = idtoken_helpers_def idtoken_makeProfileInfo_def idtoken_provider_def

subsection \<open>What populateIdentity leaves alone\<close>

text \<open>
  C8. For a response whose profile has a non-empty email, \<^verbatim>\<open>populateIdentity\<close> succeeds
  and returns its argument with the member \<^verbatim>\<open>backstageIdentity\<close> set and nothing else
  changed: \<^verbatim>\<open>providerInfo\<close> and \<^verbatim>\<open>profile\<close> are those of the argument. Hence the
  response of \<^verbatim>\<open>handler\<close> has the provider info and the profile that the frame handler
  strategy delivered, and the response of \<^verbatim>\<open>refresh\<close> has the provider info made of the
  refreshed access token and params and the profile that the profile fetch delivered.
\<close>

theorem populateIdentity_frame:
  "(\<not> falsy (email (profile r)) \<longrightarrow>
      (\<exists>r' i. populateIdentity r = Inr r' \<and>
         providerInfo r' = providerInfo r \<and> profile r' = profile r \<and>
         r' = r\<lparr>backstageIdentity := Some i\<rparr>)) \<and>
   (executeFrameHandlerStrategy H req (strategy this) = Inr (resp, priv) \<and>
    \<not> falsy (email (profile resp)) \<longrightarrow>
      (\<exists>h. handler H this req = Inr h \<and>
         providerInfo (response h) = providerInfo resp \<and>
         profile (response h) = profile resp)) \<and>
   (executeRefreshTokenStrategy H' (strategy this') rtoken sc = Inr (token, ps) \<and>
    executeFetchUserProfileStrategy H' (strategy this') token (id_token ps) = Inr prof \<and>
    \<not> falsy (email prof) \<longrightarrow>
      (\<exists>r2. refresh H' this' rtoken sc = Inr r2 \<and>
         providerInfo r2 =
           \<lparr>idToken = id_token ps, accessToken = token,
            scope = params.scope ps, expiresInSeconds = expires_in ps\<rparr> \<and>
         profile r2 = prof))"
proof (intro conjI impI)
  assume "\<not> falsy (email (profile r))"
  then obtain e where e: "email (profile r) = Some e" "e \<noteq> []"
    using not_falsy_iff by blast
  from populateIdentity_resolved [OF e]
  show "\<exists>r' i. populateIdentity r = Inr r' \<and>
         providerInfo r' = providerInfo r \<and> profile r' = profile r \<and>
         r' = r\<lparr>backstageIdentity := Some i\<rparr>"
    by (intro exI [of _ "r\<lparr>backstageIdentity :=
          Some \<lparr>id' = Some (takeWhile (\<lambda>c. c \<noteq> CHR ''@'') e)\<rparr>\<rparr>"]
        exI [of _ "\<lparr>id' = Some (takeWhile (\<lambda>c. c \<noteq> CHR ''@'') e)\<rparr>"]) simp
next
  assume a: "executeFrameHandlerStrategy H req (strategy this) = Inr (resp, priv) \<and>
    \<not> falsy (email (profile resp))"
  then obtain e where e: "email (profile resp) = Some e" "e \<noteq> []"
    using not_falsy_iff by blast
  from a populateIdentity_resolved [OF e]
  show "\<exists>h. handler H this req = Inr h \<and>
         providerInfo (response h) = providerInfo resp \<and>
         profile (response h) = profile resp"
    by (simp add: handler_def)
next
  assume a: "executeRefreshTokenStrategy H' (strategy this') rtoken sc = Inr (token, ps) \<and>
    executeFetchUserProfileStrategy H' (strategy this') token (id_token ps) = Inr prof \<and>
    \<not> falsy (email prof)"
  then obtain e where e: "email prof = Some e" "e \<noteq> []"
    using not_falsy_iff by blast
  from a refresh_resolved [of H' this' rtoken sc token ps prof e] e
  show "\<exists>r2. refresh H' this' rtoken sc = Inr r2 \<and>
         providerInfo r2 =
           \<lparr>idToken = id_token ps, accessToken = token,
            scope = params.scope ps, expiresInSeconds = expires_in ps\<rparr> \<and>
         profile r2 = prof"
    by simp
qed

theorem populateIdentity_frame_witness:
  "populateIdentity (example_response (Some ''alice@example.com'')) =
     Inr ((example_response (Some ''alice@example.com''))
            \<lparr>backstageIdentity := Some \<lparr>id' = Some ''alice''\<rparr>\<rparr>) \<and>
   (\<exists>h. handler (example_helpers [(''email'', ''alice@example.com'')] (Some ''R''))
     (example_provider [(''email'', ''alice@example.com'')] (Some ''R'')) ''abc123'' = Inr h \<and>
      providerInfo (response h) =
        \<lparr>idToken = Some ''I'', accessToken = ''T'', scope = None,
         expiresInSeconds = Some 3600\<rparr> \<and>
      profile (response h) =
        \<lparr>email = Some ''alice@example.com'', displayName = None, picture = None\<rparr>) \<and>
   (\<exists>r2. refresh (example_helpers [(''email'', ''alice@example.com'')] (Some ''R''))
     (example_provider [(''email'', ''alice@example.com'')] (Some ''R'')) ''R'' ''read'' = Inr r2 \<and>
      providerInfo r2 =
        \<lparr>idToken = Some ''I2'', accessToken = ''T2'', scope = Some ''read'',
         expiresInSeconds = Some 3600\<rparr> \<and>
      profile r2 =
        \<lparr>email = Some ''alice@example.com'', displayName = None, picture = None\<rparr>)"
  using populateIdentity_frame
    [of "example_response (Some ''alice@example.com'')"
        "example_helpers [(''email'', ''alice@example.com'')] (Some ''R'')"
        "''abc123''"
        "example_provider [(''email'', ''alice@example.com'')] (Some ''R'')"
        "\<lparr>providerInfo =
               \<lparr>idToken = Some ''I'', accessToken = ''T'', scope = None,
                expiresInSeconds = Some 3600\<rparr>,
             profile = \<lparr>email = Some ''alice@example.com'', displayName = None, picture = None\<rparr>,
             backstageIdentity = None\<rparr>"
        "\<lparr>PrivateInfo.refreshToken = Some ''R''\<rparr>"
        "example_helpers [(''email'', ''alice@example.com'')] (Some ''R'')"
        "example_provider [(''email'', ''alice@example.com'')] (Some ''R'')"
        "''R''" "''read''" "''T2''"
        "\<lparr>id_token = Some ''I2'', params.scope = Some ''read'', expires_in = Some 3600\<rparr>"
        "\<lparr>email = Some ''alice@example.com'', displayName = None, picture = None\<rparr>"]
  by (simp add: example_defs example_response_def provider_defs)

subsection \<open>The handler\<close>

text \<open>
  C9. When the code exchange delivers no refresh token (\<^verbatim>\<open>undefined\<close>) and the profile has
  a non-empty email, \<^verbatim>\<open>handler\<close> succeeds: it returns the response with the identity
  resolved, and \<^verbatim>\<open>undefined\<close> as its \<^verbatim>\<open>refreshToken\<close>. Nothing checks that a refresh
  token is present.
\<close>

theorem handler_without_refresh_token:
  assumes "new_OAuth2AuthProvider H opts = Inr this"
    and "exchangeCodeForToken H req (options (strategy this)) = Inr (token, None, ps, raw)"
    and "\<not> falsy (email (makeProfileInfo H raw (id_token ps)))"
  shows "\<exists>e. email (makeProfileInfo H raw (id_token ps)) = Some e \<and>
    handler H this req =
      Inr \<lparr>response =
             \<lparr>providerInfo =
                \<lparr>idToken = id_token ps, accessToken = token,
                 scope = params.scope ps, expiresInSeconds = expires_in ps\<rparr>,
              profile = makeProfileInfo H raw (id_token ps),
              backstageIdentity = Some \<lparr>id' = Some (takeWhile (\<lambda>c. c \<noteq> CHR ''@'') e)\<rparr>\<rparr>,
           refreshToken = None\<rparr>"
proof -
  from assms(3) obtain e where
    e: "email (makeProfileInfo H raw (id_token ps)) = Some e" "e \<noteq> []"
    using not_falsy_iff by blast
  from handler_resolved [OF assms(1,2) e] e(1) show ?thesis by blast
qed

theorem handler_without_refresh_token_witness:
  "handler (example_helpers [(''email'', ''alice@example.com'')] None)
     (example_provider [(''email'', ''alice@example.com'')] None) ''abc123'' =
     Inr \<lparr>response =
            \<lparr>providerInfo =
               \<lparr>idToken = Some ''I'', accessToken = ''T'', scope = None,
                expiresInSeconds = Some 3600\<rparr>,
             profile = \<lparr>email = Some ''alice@example.com'', displayName = None, picture = None\<rparr>,
             backstageIdentity = Some \<lparr>id' = Some ''alice''\<rparr>\<rparr>,
          refreshToken = None\<rparr>"
  using handler_without_refresh_token
    [of "example_helpers [(''email'', ''alice@example.com'')] None" example_options
        "example_provider [(''email'', ''alice@example.com'')] None"
        "''abc123''" "''T''"
        "\<lparr>id_token = Some ''I'', params.scope = None, expires_in = Some 3600\<rparr>"
        "[(''email'', ''alice@example.com'')]"]
  by (simp add: example_defs)

text \<open>
  C6. Scenario B: the token endpoint answers
  \<^verbatim>\<open>{access_token: "T", id_token: "I", expires_in: 3600}\<close> and the profile made of the
  profile endpoint's answer has the email \<^verbatim>\<open>alice@example.com\<close>. Then \<^verbatim>\<open>handler\<close>
  succeeds; in its response \<^verbatim>\<open>backstageIdentity.id\<close> is \<^verbatim>\<open>alice\<close> and the provider info
  has the access token \<^verbatim>\<open>T\<close>, the id token \<^verbatim>\<open>I\<close> and 3600 seconds to expiry; its
  \<^verbatim>\<open>refreshToken\<close> is whatever the exchange delivered.
\<close>

theorem handler_scenario_B:
  assumes "new_OAuth2AuthProvider H opts = Inr this"
    and "exchangeCodeForToken H req (options (strategy this)) =
      Inr (''T'', rt, \<lparr>id_token = Some ''I'', params.scope = sc, expires_in = Some 3600\<rparr>, raw)"
    and "email (makeProfileInfo H raw (Some ''I'')) = Some ''alice@example.com''"
  shows "\<exists>h. handler H this req = Inr h \<and>
    backstageIdentity (response h) = Some \<lparr>id' = Some ''alice''\<rparr> \<and>
    accessToken (providerInfo (response h)) = ''T'' \<and>
    idToken (providerInfo (response h)) = Some ''I'' \<and>
    expiresInSeconds (providerInfo (response h)) = Some 3600 \<and>
    HandlerResult.refreshToken h = rt"
  using handler_resolved [OF assms(1,2), of "''alice@example.com''"] assms(3)
  by simp

theorem handler_scenario_B_witness:
  "\<exists>h. handler (example_helpers [(''email'', ''alice@example.com'')] None)
     (example_provider [(''email'', ''alice@example.com'')] None) ''abc123'' = Inr h \<and>
    backstageIdentity (response h) = Some \<lparr>id' = Some ''alice''\<rparr> \<and>
    accessToken (providerInfo (response h)) = ''T'' \<and>
    idToken (providerInfo (response h)) = Some ''I'' \<and>
    expiresInSeconds (providerInfo (response h)) = Some 3600 \<and>
    HandlerResult.refreshToken h = None"
  using handler_scenario_B
    [of "example_helpers [(''email'', ''alice@example.com'')] None" example_options
        "example_provider [(''email'', ''alice@example.com'')] None"
        "''abc123''" None None "[(''email'', ''alice@example.com'')]"]
  by (simp add: example_defs)

subsection \<open>A profile without email\<close>

text \<open>
  C3, as the code has it. When the profile's email is absent or empty, \<^verbatim>\<open>handler\<close> and
  \<^verbatim>\<open>refresh\<close> both fail, and so return no response at all, once the exchange (and for
  \<^verbatim>\<open>refresh\<close> the profile fetch) has succeeded. The error is the plain \<^verbatim>\<open>Error\<close> thrown by
  \<^verbatim>\<open>populateIdentity\<close>, with the message \<^verbatim>\<open>Profile does not contain a profile\<close>.
\<close>

theorem missing_email_fails:
  assumes "falsy (email prof)"
  shows
   "(new_OAuth2AuthProvider H opts = Inr this \<and>
     exchangeCodeForToken H req (options (strategy this)) = Inr (token, rt, ps, raw) \<and>
     makeProfileInfo H raw (id_token ps) = prof \<longrightarrow>
       handler H this req = Inl (Error ''Profile does not contain a profile'')) \<and>
    (executeRefreshTokenStrategy H' (strategy this') rtoken sc = Inr (token', ps') \<and>
     executeFetchUserProfileStrategy H' (strategy this') token' (id_token ps') = Inr prof \<longrightarrow>
       refresh H' this' rtoken sc = Inl (Error ''Profile does not contain a profile''))"
  using assms handler_unresolved [of H opts this req token rt ps raw]
    refresh_unresolved [of H' this' rtoken sc token' ps' prof]
  by blast

theorem missing_email_fails_witness:
  "falsy (Some []) \<and>
   handler (example_helpers [(''email'', [])] (Some ''R''))
     (example_provider [(''email'', [])] (Some ''R''))
     ''abc123'' = Inl (Error ''Profile does not contain a profile'') \<and>
   refresh (example_helpers [(''email'', [])] (Some ''R''))
     (example_provider [(''email'', [])] (Some ''R''))
     ''R'' ''read'' = Inl (Error ''Profile does not contain a profile'')"
  using missing_email_fails
    [of "\<lparr>email = Some [], displayName = None, picture = None\<rparr>"
        "example_helpers [(''email'', [])] (Some ''R'')" example_options
        "example_provider [(''email'', [])] (Some ''R'')"
        "''abc123''" "''T''" "Some ''R''"
        "\<lparr>id_token = Some ''I'', params.scope = None, expires_in = Some 3600\<rparr>"
        "[(''email'', [])]"
        "example_helpers [(''email'', [])] (Some ''R'')"
        "example_provider [(''email'', [])] (Some ''R'')"
        "''R''" "''read''" "''T2''"
        "\<lparr>id_token = Some ''I2'', params.scope = Some ''read'', expires_in = Some 3600\<rparr>"]
  by (simp add: example_defs executeFetchUserProfileStrategy_def)

text \<open>
  C3 as stated names the error \<^verbatim>\<open>IdentityResolutionError("missing email")\<close>. With the
  email \<^verbatim>\<open>""\<close> (Scenario D) \<^verbatim>\<open>handler\<close> fails, and with no email at all \<^verbatim>\<open>refresh\<close>
  fails, but with the message \<^verbatim>\<open>Profile does not contain a profile\<close>, not
  \<^verbatim>\<open>missing email\<close>.
\<close>

theorem missing_email_error_counterexample:
  "handler (example_helpers [(''email'', [])] (Some ''R''))
     (example_provider [(''email'', [])] (Some ''R''))
     ''abc123'' = Inl (Error ''Profile does not contain a profile'') \<and>
   handler (example_helpers [(''email'', [])] (Some ''R''))
     (example_provider [(''email'', [])] (Some ''R''))
     ''abc123'' \<noteq> Inl (Error ''missing email'') \<and>
   refresh (example_helpers [] (Some ''R''))
     (example_provider [] (Some ''R''))
     ''R'' ''read'' = Inl (Error ''Profile does not contain a profile'') \<and>
   refresh (example_helpers [] (Some ''R''))
     (example_provider [] (Some ''R''))
     ''R'' ''read'' \<noteq> Inl (Error ''missing email'')"
  by (simp add: example_defs provider_defs)

subsection \<open>The refresh token\<close>

text \<open>
  C4. Whatever \<^verbatim>\<open>refresh\<close> returns is an \<^verbatim>\<open>OAuthResponse\<close>: the provider info made of the
  new access token and of the members \<^verbatim>\<open>id_token\<close>, \<^verbatim>\<open>scope\<close> and \<^verbatim>\<open>expires_in\<close> of the
  refresh exchange's params, the fetched profile, and the resolved identity; no member of
  it is a refresh token. \<^verbatim>\<open>handler\<close> returns, beside a response of the same shape, the
  member \<^verbatim>\<open>refreshToken\<close>, which is the refresh token the code exchange delivered.
\<close>

theorem refresh_returns_no_refresh_token:
  "(refresh H this rtoken sc = Inr r \<longrightarrow>
      (\<exists>token ps prof ident.
         executeRefreshTokenStrategy H (strategy this) rtoken sc = Inr (token, ps) \<and>
         executeFetchUserProfileStrategy H (strategy this) token (id_token ps) = Inr prof \<and>
         r = \<lparr>providerInfo =
                \<lparr>idToken = id_token ps, accessToken = token,
                 scope = params.scope ps, expiresInSeconds = expires_in ps\<rparr>,
              profile = prof,
              backstageIdentity = Some \<lparr>id' = Some ident\<rparr>\<rparr>)) \<and>
   (new_OAuth2AuthProvider H' opts = Inr this' \<and> handler H' this' req = Inr h \<longrightarrow>
      (\<exists>token rt ps raw ident.
         exchangeCodeForToken H' req (options (strategy this')) = Inr (token, rt, ps, raw) \<and>
         HandlerResult.refreshToken h = rt \<and>
         response h =
           \<lparr>providerInfo =
              \<lparr>idToken = id_token ps, accessToken = token,
               scope = params.scope ps, expiresInSeconds = expires_in ps\<rparr>,
            profile = makeProfileInfo H' raw (id_token ps),
            backstageIdentity = Some \<lparr>id' = Some ident\<rparr>\<rparr>))"
proof (intro conjI impI)
  assume "refresh H this rtoken sc = Inr r"
  from refresh_Inr_cases [OF this]
  show "\<exists>token ps prof ident.
         executeRefreshTokenStrategy H (strategy this) rtoken sc = Inr (token, ps) \<and>
         executeFetchUserProfileStrategy H (strategy this) token (id_token ps) = Inr prof \<and>
         r = \<lparr>providerInfo =
                \<lparr>idToken = id_token ps, accessToken = token,
                 scope = params.scope ps, expiresInSeconds = expires_in ps\<rparr>,
              profile = prof,
              backstageIdentity = Some \<lparr>id' = Some ident\<rparr>\<rparr>"
    by blast
next
  assume a: "new_OAuth2AuthProvider H' opts = Inr this' \<and> handler H' this' req = Inr h"
  then obtain token rt ps raw e where
    ex: "exchangeCodeForToken H' req (options (strategy this')) = Inr (token, rt, ps, raw)"
    and h: "h = \<lparr>response =
           \<lparr>providerInfo =
              \<lparr>idToken = id_token ps, accessToken = token,
               scope = params.scope ps, expiresInSeconds = expires_in ps\<rparr>,
            profile = makeProfileInfo H' raw (id_token ps),
            backstageIdentity = Some \<lparr>id' = Some (takeWhile (\<lambda>c. c \<noteq> CHR ''@'') e)\<rparr>\<rparr>,
          refreshToken = rt\<rparr>"
    using handler_Inr_cases [of H' opts this' req h] by blast
  have "HandlerResult.refreshToken h = rt" by (simp add: h)
  moreover have "response h =
           \<lparr>providerInfo =
              \<lparr>idToken = id_token ps, accessToken = token,
               scope = params.scope ps, expiresInSeconds = expires_in ps\<rparr>,
            profile = makeProfileInfo H' raw (id_token ps),
            backstageIdentity = Some \<lparr>id' = Some (takeWhile (\<lambda>c. c \<noteq> CHR ''@'') e)\<rparr>\<rparr>"
    by (simp add: h)
  ultimately show "\<exists>token rt ps raw ident.
         exchangeCodeForToken H' req (options (strategy this')) = Inr (token, rt, ps, raw) \<and>
         HandlerResult.refreshToken h = rt \<and>
         response h =
           \<lparr>providerInfo =
              \<lparr>idToken = id_token ps, accessToken = token,
               scope = params.scope ps, expiresInSeconds = expires_in ps\<rparr>,
            profile = makeProfileInfo H' raw (id_token ps),
            backstageIdentity = Some \<lparr>id' = Some ident\<rparr>\<rparr>"
    using ex by blast
qed

theorem refresh_returns_no_refresh_token_witness:
  "refresh (example_helpers [(''email'', ''alice@example.com'')] (Some ''R''))
     (example_provider [(''email'', ''alice@example.com'')] (Some ''R'')) ''R'' ''read'' =
     Inr \<lparr>providerInfo =
            \<lparr>idToken = Some ''I2'', accessToken = ''T2'', scope = Some ''read'',
             expiresInSeconds = Some 3600\<rparr>,
          profile = \<lparr>email = Some ''alice@example.com'', displayName = None, picture = None\<rparr>,
          backstageIdentity = Some \<lparr>id' = Some ''alice''\<rparr>\<rparr> \<and>
   handler (example_helpers [(''email'', ''alice@example.com'')] (Some ''R''))
     (example_provider [(''email'', ''alice@example.com'')] (Some ''R'')) ''abc123'' =
     Inr \<lparr>response =
            \<lparr>providerInfo =
               \<lparr>idToken = Some ''I'', accessToken = ''T'', scope = None,
                expiresInSeconds = Some 3600\<rparr>,
             profile = \<lparr>email = Some ''alice@example.com'', displayName = None, picture = None\<rparr>,
             backstageIdentity = Some \<lparr>id' = Some ''alice''\<rparr>\<rparr>,
          refreshToken = Some ''R''\<rparr> \<and>
   exchangeCodeForToken (example_helpers [(''email'', ''alice@example.com'')] (Some ''R'')) ''abc123''
     (options (strategy
        (example_provider [(''email'', ''alice@example.com'')] (Some ''R'')))) =
     Inr (''T'', Some ''R'',
          \<lparr>id_token = Some ''I'', params.scope = None, expires_in = Some 3600\<rparr>,
          [(''email'', ''alice@example.com'')])"
  using refresh_returns_no_refresh_token
    [of "example_helpers [(''email'', ''alice@example.com'')] (Some ''R'')"
        "example_provider [(''email'', ''alice@example.com'')] (Some ''R'')"
        "''R''" "''read''"
        "\<lparr>providerInfo =
            \<lparr>idToken = Some ''I2'', accessToken = ''T2'', scope = Some ''read'',
             expiresInSeconds = Some 3600\<rparr>,
          profile = \<lparr>email = Some ''alice@example.com'', displayName = None, picture = None\<rparr>,
          backstageIdentity = Some \<lparr>id' = Some ''alice''\<rparr>\<rparr>"
        "example_helpers [(''email'', ''alice@example.com'')] (Some ''R'')" example_options
        "example_provider [(''email'', ''alice@example.com'')] (Some ''R'')"
        "''abc123''"
        "\<lparr>response =
            \<lparr>providerInfo =
               \<lparr>idToken = Some ''I'', accessToken = ''T'', scope = None,
                expiresInSeconds = Some 3600\<rparr>,
             profile = \<lparr>email = Some ''alice@example.com'', displayName = None, picture = None\<rparr>,
             backstageIdentity = Some \<lparr>id' = Some ''alice''\<rparr>\<rparr>,
          refreshToken = Some ''R''\<rparr>"]
  by (simp add: example_defs provider_defs)

text \<open>
  C5, as the code has it. Round trip. Let the code exchange of a request deliver the
  refresh token \<open>rt\<close>, the params \<open>ps\<close> and the raw profile \<open>raw\<close>, and let \<^verbatim>\<open>handler\<close>
  succeed on that request. Then \<open>rt\<close> is the \<^verbatim>\<open>refreshToken\<close> that \<^verbatim>\<open>handler\<close> returns.
  If the refresh exchange accepts \<open>rt\<close>, the profile endpoint then answers the same raw
  profile (the upstream profile is unchanged) and the refresh exchange delivers the id
  token of the first exchange, then \<^verbatim>\<open>refresh\<close> of \<open>rt\<close> succeeds with the profile of the
  response of \<^verbatim>\<open>handler\<close>, hence with its \<^verbatim>\<open>profile.email\<close>.
\<close>

theorem refresh_round_trip:
  assumes prov: "new_OAuth2AuthProvider H opts = Inr this"
    and ex0: "exchangeCodeForToken H req (options (strategy this)) = Inr (token, Some rt, ps, raw)"
    and h: "handler H this req = Inr h"
    and ex: "executeRefreshTokenStrategy H (strategy this) rt sc = Inr (token', ps')"
    and unchanged: "fetchProfile H (strategy this) token' (id_token ps') = Inr raw"
    and same_id_token: "id_token ps' = id_token ps"
  shows "HandlerResult.refreshToken h = Some rt \<and>
    (\<exists>r. refresh H this rt sc = Inr r \<and>
       profile r = profile (response h) \<and>
       email (profile r) = email (profile (response h)))"
proof -
  obtain e where e: "email (makeProfileInfo H raw (id_token ps)) = Some e" "e \<noteq> []"
    and hv: "h = \<lparr>response =
           \<lparr>providerInfo =
              \<lparr>idToken = id_token ps, accessToken = token,
               scope = params.scope ps, expiresInSeconds = expires_in ps\<rparr>,
            profile = makeProfileInfo H raw (id_token ps),
            backstageIdentity = Some \<lparr>id' = Some (takeWhile (\<lambda>c. c \<noteq> CHR ''@'') e)\<rparr>\<rparr>,
          refreshToken = Some rt\<rparr>"
    using handler_Inr_cases [OF prov h] ex0 by auto
  have fp: "executeFetchUserProfileStrategy H (strategy this) token' (id_token ps') =
      Inr (makeProfileInfo H raw (id_token ps))"
    using unchanged same_id_token by (simp add: executeFetchUserProfileStrategy_def)
  have "HandlerResult.refreshToken h = Some rt" by (simp add: hv)
  moreover have "profile (response h) = makeProfileInfo H raw (id_token ps)" by (simp add: hv)
  ultimately show ?thesis
    using refresh_resolved [OF ex fp e] by simp
qed

theorem refresh_round_trip_witness:
  "handler (idtoken_helpers (Some ''I'')) (idtoken_provider (Some ''I'')) ''abc123'' =
     Inr \<lparr>response =
            \<lparr>providerInfo =
               \<lparr>idToken = Some ''I'', accessToken = ''T'', scope = None,
                expiresInSeconds = Some 3600\<rparr>,
             profile = \<lparr>email = Some ''alice@example.com'', displayName = None, picture = None\<rparr>,
             backstageIdentity = Some \<lparr>id' = Some ''alice''\<rparr>\<rparr>,
          refreshToken = Some ''R''\<rparr> \<and>
   fetchProfile (idtoken_helpers (Some ''I'')) (strategy (idtoken_provider (Some ''I''))) ''T2''
     (Some ''I'') = Inr [] \<and>
   (\<exists>r. refresh (idtoken_helpers (Some ''I'')) (idtoken_provider (Some ''I'')) ''R'' ''read'' =
          Inr r \<and>
        email (profile r) = Some ''alice@example.com'')"
  using refresh_round_trip
    [of "idtoken_helpers (Some ''I'')" example_options "idtoken_provider (Some ''I'')"
        "''abc123''" "''T''" "''R''"
        "\<lparr>id_token = Some ''I'', params.scope = None, expires_in = Some 3600\<rparr>"
        "[]"
        "\<lparr>response =
            \<lparr>providerInfo =
               \<lparr>idToken = Some ''I'', accessToken = ''T'', scope = None,
                expiresInSeconds = Some 3600\<rparr>,
             profile = \<lparr>email = Some ''alice@example.com'', displayName = None, picture = None\<rparr>,
             backstageIdentity = Some \<lparr>id' = Some ''alice''\<rparr>\<rparr>,
          refreshToken = Some ''R''\<rparr>"
        "''read''" "''T2''"
        "\<lparr>id_token = Some ''I'', params.scope = Some ''read'', expires_in = Some 3600\<rparr>"]
    idtoken_provider_constructed [of "Some ''I''"]
  by (simp add: idtoken_defs example_defs provider_defs)

text \<open>
  C5 as stated asks only that the upstream profile be unchanged. Let the profile
  endpoint's object hold no email, the email being a claim of the id token \<^verbatim>\<open>I\<close> that
  the code exchange delivers, and let the refresh exchange deliver no id token. Then
  \<^verbatim>\<open>handler\<close> succeeds with the email \<^verbatim>\<open>alice@example.com\<close> and returns the refresh token
  \<^verbatim>\<open>R\<close>; the refresh exchange accepts \<^verbatim>\<open>R\<close> and the profile endpoint answers the same
  raw profile as before; and \<^verbatim>\<open>refresh\<close> of \<^verbatim>\<open>R\<close> fails, since the profile it makes of the
  raw profile and of its own exchange's id token has no email.
\<close>

theorem refresh_round_trip_counterexample:
  "new_OAuth2AuthProvider (idtoken_helpers None) example_options = Inr (idtoken_provider None) \<and>
   exchangeCodeForToken (idtoken_helpers None) ''abc123''
       (options (strategy (idtoken_provider None))) =
     Inr (''T'', Some ''R'',
          \<lparr>id_token = Some ''I'', params.scope = None, expires_in = Some 3600\<rparr>, []) \<and>
   handler (idtoken_helpers None) (idtoken_provider None) ''abc123'' =
     Inr \<lparr>response =
            \<lparr>providerInfo =
               \<lparr>idToken = Some ''I'', accessToken = ''T'', scope = None,
                expiresInSeconds = Some 3600\<rparr>,
             profile = \<lparr>email = Some ''alice@example.com'', displayName = None, picture = None\<rparr>,
             backstageIdentity = Some \<lparr>id' = Some ''alice''\<rparr>\<rparr>,
          refreshToken = Some ''R''\<rparr> \<and>
   executeRefreshTokenStrategy (idtoken_helpers None) (strategy (idtoken_provider None))
       ''R'' ''read'' =
     Inr (''T2'', \<lparr>id_token = None, params.scope = Some ''read'', expires_in = Some 3600\<rparr>) \<and>
   fetchProfile (idtoken_helpers None) (strategy (idtoken_provider None)) ''T2'' None = Inr [] \<and>
   refresh (idtoken_helpers None) (idtoken_provider None) ''R'' ''read'' =
     Inl (Error ''Profile does not contain a profile'')"
  by (simp add: idtoken_defs example_defs provider_defs)

subsection \<open>The start of a login\<close>








subsection \<open>The factory\<close>

text \<open>
  C7. \<^verbatim>\<open>createOAuth2Provider\<close> reads \<^verbatim>\<open>clientId\<close>, \<^verbatim>\<open>clientSecret\<close>, \<^verbatim>\<open>authorizationUrl\<close>
  and \<^verbatim>\<open>tokenUrl\<close> from the provider's environment configuration with \<^verbatim>\<open>getString\<close>, and
  fails when \<^verbatim>\<open>getString\<close> throws for one of them. When the four are there, it calls the
  provider's constructor with them and with the callback URL
  \<^verbatim>\<open>baseUrl + "/" + providerId + "/handler/frame"\<close>, where \<^verbatim>\<open>providerId\<close> is the constant
  \<^verbatim>\<open>oauth2\<close>, the provider id handed to \<^verbatim>\<open>OAuthProvider.fromConfig\<close>; these are the options
  that \<^verbatim>\<open>new OAuth2Strategy\<close> is given. If that constructor throws, the factory fails with
  its error; otherwise the strategy has these options and the factory returns what
  \<^verbatim>\<open>OAuthProvider.fromConfig\<close> makes of the provider.
\<close>

theorem createOAuth2Provider_reads_config:
  "(getString envConfig ''clientId'' = Inr cid \<and>
    getString envConfig ''clientSecret'' = Inr secret \<and>
    getString envConfig ''authorizationUrl'' = Inr aurl \<and>
    getString envConfig ''tokenUrl'' = Inr turl \<longrightarrow>
      (\<exists>pid sopts.
         pid = ''oauth2'' \<and>
         sopts =
           \<lparr>clientID = cid, clientSecret = secret,
            callbackURL = baseUrl config @ ''/'' @ pid @ ''/handler/frame'',
            authorizationURL = aurl, tokenURL = turl, passReqToCallback = False\<rparr> \<and>
         createOAuth2Provider H fromConfig config env envConfig logger issuer =
           (case new_OAuth2AuthProvider H
                   \<lparr>clientId = cid, clientSecret = secret,
                    callbackUrl = baseUrl config @ ''/'' @ pid @ ''/handler/frame'',
                    authorizationUrl = aurl, tokenUrl = turl\<rparr> of
              Inl err \<Rightarrow> Inl err
            | Inr provider \<Rightarrow>
                Inr (fromConfig config provider
                       \<lparr>disableRefresh = False, providerId = pid, tokenIssuer = issuer\<rparr>)) \<and>
         (\<forall>err. constructorError H sopts = Some err \<longrightarrow>
            createOAuth2Provider H fromConfig config env envConfig logger issuer = Inl err) \<and>
         (constructorError H sopts = None \<longrightarrow>
            createOAuth2Provider H fromConfig config env envConfig logger issuer =
              Inr (fromConfig config \<lparr>strategy = \<lparr>options = sopts, verify = verify_callback H\<rparr>\<rparr>
                     \<lparr>disableRefresh = False, providerId = pid, tokenIssuer = issuer\<rparr>)))) \<and>
   (getString envConfig ''clientId'' = Inl e \<or>
    getString envConfig ''clientSecret'' = Inl e \<or>
    getString envConfig ''authorizationUrl'' = Inl e \<or>
    getString envConfig ''tokenUrl'' = Inl e \<longrightarrow>
      (\<exists>e'. createOAuth2Provider H fromConfig config env envConfig logger issuer = Inl e'))"
proof (intro conjI impI)
  assume reads: "getString envConfig ''clientId'' = Inr cid \<and>
    getString envConfig ''clientSecret'' = Inr secret \<and>
    getString envConfig ''authorizationUrl'' = Inr aurl \<and>
    getString envConfig ''tokenUrl'' = Inr turl"
  let ?sopts = "\<lparr>clientID = cid, clientSecret = secret,
            callbackURL = baseUrl config @ ''/'' @ ''oauth2'' @ ''/handler/frame'',
            authorizationURL = aurl, tokenURL = turl, passReqToCallback = False\<rparr>"
  let ?popts = "\<lparr>clientId = cid, clientSecret = secret,
                    callbackUrl = baseUrl config @ ''/'' @ ''oauth2'' @ ''/handler/frame'',
                    authorizationUrl = aurl, tokenUrl = turl\<rparr>"
  have c: "createOAuth2Provider H fromConfig config env envConfig logger issuer =
           (case new_OAuth2AuthProvider H ?popts of
              Inl err \<Rightarrow> Inl err
            | Inr provider \<Rightarrow>
                Inr (fromConfig config provider
                       \<lparr>disableRefresh = False, providerId = ''oauth2'', tokenIssuer = issuer\<rparr>))"
    using reads by (simp add: createOAuth2Provider_def)
  have n: "new_OAuth2AuthProvider H ?popts =
      (case constructorError H ?sopts of
         Some err \<Rightarrow> Inl err
       | None \<Rightarrow> Inr \<lparr>strategy = \<lparr>options = ?sopts, verify = verify_callback H\<rparr>\<rparr>)"
    by (simp add: new_OAuth2AuthProvider_def new_OAuth2Strategy_def split: option.splits)
  have f: "\<forall>err. constructorError H ?sopts = Some err \<longrightarrow>
            createOAuth2Provider H fromConfig config env envConfig logger issuer = Inl err"
    using c n by simp
  have g: "constructorError H ?sopts = None \<longrightarrow>
            createOAuth2Provider H fromConfig config env envConfig logger issuer =
              Inr (fromConfig config \<lparr>strategy = \<lparr>options = ?sopts, verify = verify_callback H\<rparr>\<rparr>
                     \<lparr>disableRefresh = False, providerId = ''oauth2'', tokenIssuer = issuer\<rparr>)"
    using c n by simp
  from c f g
  show "\<exists>pid sopts.
         pid = ''oauth2'' \<and>
         sopts =
           \<lparr>clientID = cid, clientSecret = secret,
            callbackURL = baseUrl config @ ''/'' @ pid @ ''/handler/frame'',
            authorizationURL = aurl, tokenURL = turl, passReqToCallback = False\<rparr> \<and>
         createOAuth2Provider H fromConfig config env envConfig logger issuer =
           (case new_OAuth2AuthProvider H
                   \<lparr>clientId = cid, clientSecret = secret,
                    callbackUrl = baseUrl config @ ''/'' @ pid @ ''/handler/frame'',
                    authorizationUrl = aurl, tokenUrl = turl\<rparr> of
              Inl err \<Rightarrow> Inl err
            | Inr provider \<Rightarrow>
                Inr (fromConfig config provider
                       \<lparr>disableRefresh = False, providerId = pid, tokenIssuer = issuer\<rparr>)) \<and>
         (\<forall>err. constructorError H sopts = Some err \<longrightarrow>
            createOAuth2Provider H fromConfig config env envConfig logger issuer = Inl err) \<and>
         (constructorError H sopts = None \<longrightarrow>
            createOAuth2Provider H fromConfig config env envConfig logger issuer =
              Inr (fromConfig config \<lparr>strategy = \<lparr>options = sopts, verify = verify_callback H\<rparr>\<rparr>
                     \<lparr>disableRefresh = False, providerId = pid, tokenIssuer = issuer\<rparr>))"
    by (intro exI [of _ "''oauth2''"] exI [of _ ?sopts]) simp
next
  assume "getString envConfig ''clientId'' = Inl e \<or>
    getString envConfig ''clientSecret'' = Inl e \<or>
    getString envConfig ''authorizationUrl'' = Inl e \<or>
    getString envConfig ''tokenUrl'' = Inl e"
  then show "\<exists>e'. createOAuth2Provider H fromConfig config env envConfig logger issuer = Inl e'"
    by (auto simp: createOAuth2Provider_def Let_def split: sum.splits)
qed

theorem createOAuth2Provider_reads_config_witness:
  "createOAuth2Provider (example_helpers [] None) (\<lambda>c p x. (c, p, x))
      \<lparr>baseUrl = ''https://backstage''\<rparr> ''development'' example_envConfig () ''issuer'' =
      Inr (\<lparr>baseUrl = ''https://backstage''\<rparr>, example_provider [] None,
           \<lparr>disableRefresh = False, providerId = ''oauth2'', tokenIssuer = ''issuer''\<rparr>) \<and>
   createOAuth2Provider (example_helpers [] None) (\<lambda>c p x. (c, p, x))
      \<lparr>baseUrl = ''https://backstage''\<rparr> ''development''
      \<lparr>getString = (\<lambda>key. if key = ''clientId'' then Inr [] else Inr ''v'')\<rparr> () ''issuer'' =
      Inl (TypeError ''OAuth2Strategy requires a clientID option'') \<and>
   (\<exists>e'. createOAuth2Provider (example_helpers [] None) (\<lambda>c p x. (c, p, x))
      \<lparr>baseUrl = ''https://backstage''\<rparr> ''development''
      \<lparr>getString = (\<lambda>key. if key = ''tokenUrl'' then Inl (Error ''missing tokenUrl'')
                           else Inr ''v'')\<rparr> () ''issuer'' = Inl e')"
proof -
  have "createOAuth2Provider (example_helpers [] None) (\<lambda>c p x. (c, p, x))
      \<lparr>baseUrl = ''https://backstage''\<rparr> ''development'' example_envConfig () ''issuer'' =
      Inr (\<lparr>baseUrl = ''https://backstage''\<rparr>, example_provider [] None,
           \<lparr>disableRefresh = False, providerId = ''oauth2'', tokenIssuer = ''issuer''\<rparr>)"
    using createOAuth2Provider_reads_config
      [where envConfig = example_envConfig and cid = "''c1''" and secret = "''s1''"
         and aurl = "''https://idp/auth''" and turl = "''https://idp/token''"
         and H = "example_helpers [] None" and fromConfig = "\<lambda>c p x. (c, p, x)"
         and config = "\<lparr>baseUrl = ''https://backstage''\<rparr>"
         and env = "''development''" and logger = "()" and issuer = "''issuer''"
         and e = "Error ''none''"]
    by (simp add: example_envConfig_def example_defs)
  moreover have "createOAuth2Provider (example_helpers [] None) (\<lambda>c p x. (c, p, x))
      \<lparr>baseUrl = ''https://backstage''\<rparr> ''development''
      \<lparr>getString = (\<lambda>key. if key = ''clientId'' then Inr [] else Inr ''v'')\<rparr> () ''issuer'' =
      Inl (TypeError ''OAuth2Strategy requires a clientID option'')"
    using createOAuth2Provider_reads_config
      [where envConfig =
           "\<lparr>getString = (\<lambda>key. if key = ''clientId'' then Inr [] else Inr ''v'')\<rparr>"
         and cid = "[]" and secret = "''v''" and aurl = "''v''" and turl = "''v''"
         and H = "example_helpers [] None" and fromConfig = "\<lambda>c p x. (c, p, x)"
         and config = "\<lparr>baseUrl = ''https://backstage''\<rparr>"
         and env = "''development''" and logger = "()" and issuer = "''issuer''"
         and e = "Error ''none''"]
    by (simp add: example_defs)
  moreover have "\<exists>e'. createOAuth2Provider (example_helpers [] None) (\<lambda>c p x. (c, p, x))
      \<lparr>baseUrl = ''https://backstage''\<rparr> ''development''
      \<lparr>getString = (\<lambda>key. if key = ''tokenUrl'' then Inl (Error ''missing tokenUrl'')
                           else Inr ''v'')\<rparr> () ''issuer'' = Inl e'"
    using createOAuth2Provider_reads_config
      [where envConfig =
           "\<lparr>getString = (\<lambda>key. if key = ''tokenUrl'' then Inl (Error ''missing tokenUrl'')
                           else Inr ''v'')\<rparr>"
         and cid = "''v''" and secret = "''v''" and aurl = "''v''" and turl = "''v''"
         and H = "example_helpers [] None" and fromConfig = "\<lambda>c p x. (c, p, x)"
         and config = "\<lparr>baseUrl = ''https://backstage''\<rparr>"
         and env = "''development''" and logger = "()" and issuer = "''issuer''"
         and e = "Error ''missing tokenUrl''"]
    by simp
  ultimately show ?thesis by blast
qed

end

